theory Spec2Isabelle
  imports Main "HOL-Library.Word" "HOL-Library.AList" "HOL-Library.Char_ord" "HOL-Library.List_Lexorder"
begin

unbundle bit_operations_syntax

section \<open>The data model of \<^verbatim>\<open>types/struct.go\<close>\<close>

text \<open>
  A Go pointer is either \<^verbatim>\<open>nil\<close> or points to a value; nothing in this file aliases
  or compares pointers, so a pointer is an \<open>option\<close>. A Go \<^verbatim>\<open>string\<close> is a sequence of
  bytes, as an Isabelle \<open>string\<close> is. A \<^verbatim>\<open>float64\<close> is its IEEE-754 bit pattern
  (\<^verbatim>\<open>math.Float64bits\<close>). A Go map is an association list; a slice or map that is
  \<^verbatim>\<open>nil\<close> is \<open>None\<close>.
\<close>

type_synonym 'a ptr = "'a option"
type_synonym float64 = "64 word"
type_synonym float32 = "32 word"

datatype NullValue = NullValue_NULL_VALUE

text \<open>
  \<^verbatim>\<open>Value.Kind\<close> is an interface: \<open>None\<close> is the nil interface, and each dynamic type
  \<^verbatim>\<open>*Value_NumberValue\<close>, ... is a pointer to a one-field struct, which may itself be nil.
\<close>

datatype Value = Value (Kind: "isValue_Kind option")
and isValue_Kind =
    Value_NullValue "NullValue ptr"
  | Value_NumberValue "float64 ptr"
  | Value_StringValue "string ptr"
  | Value_BoolValue "bool ptr"
  | Value_StructValue "Struct ptr ptr"
  | Value_ListValue "ListValue ptr ptr"
and Struct = Struct (Fields: "(string \<times> Value ptr) list option")
and ListValue = ListValue (Values: "Value ptr list option")

text \<open>The dynamic values an \<^verbatim>\<open>interface{}\<close> holds on the way in and out.\<close>

datatype native =
    GoNil
  | GoBool bool
  | GoInt "64 word"
  | GoInt32 "32 word"
  | GoInt64 "64 word"
  | GoUint "64 word"
  | GoUint32 "32 word"
  | GoUint64 "64 word"
  | GoFloat32 float32
  | GoFloat64 float64
  | GoString string
  | GoBytes string
  | GoMap "(string \<times> native) list"
  | GoSlice "native list"
  | GoOther

datatype json_error = SyntaxError | UnmarshalTypeError

datatype error =
    InvalidUTF8 string
  | InvalidType
  | UnrecognizedType string
  | BadListValue json_error
  | BadStructValue json_error
  | BadValueInStruct string error
  | UnsupportedValue float64
  | NilDereference

section \<open>Library functions the file calls\<close>

subsection \<open>\<^verbatim>\<open>unicode/utf8\<close>\<close>

definition byte :: "char \<Rightarrow> nat" where
  "byte c = of_char c"

definition RuneError :: nat where
  "RuneError = 0xFFFD"

definition cont_byte :: "nat \<Rightarrow> nat \<Rightarrow> char \<Rightarrow> bool" where
  "cont_byte lo hi c = (lo \<le> byte c \<and> byte c \<le> hi)"

text \<open>\<^verbatim>\<open>utf8.DecodeRune\<close>: the first rune of the bytes and its width; an invalid or short
  encoding is \<^verbatim>\<open>(RuneError, 1)\<close>, the empty input \<^verbatim>\<open>(RuneError, 0)\<close>.\<close>

fun DecodeRune :: "string \<Rightarrow> nat \<times> nat" where
  "DecodeRune [] = (RuneError, 0)"
| "DecodeRune (p0 # p) =
     (let b0 = byte p0 in
      if b0 < 0x80 then (b0, 1)
      else if b0 < 0xC2 \<or> 0xF4 < b0 then (RuneError, 1)
      else if b0 < 0xE0 then
        (case p of
           b1 # _ \<Rightarrow> if cont_byte 0x80 0xBF b1
                     then ((b0 mod 0x20) * 0x40 + byte b1 mod 0x40, 2) else (RuneError, 1)
         | _ \<Rightarrow> (RuneError, 1))
      else if b0 < 0xF0 then
        (case p of
           b1 # b2 # _ \<Rightarrow>
             if cont_byte (if b0 = 0xE0 then 0xA0 else 0x80) (if b0 = 0xED then 0x9F else 0xBF) b1
                \<and> cont_byte 0x80 0xBF b2
             then ((b0 mod 0x10) * 0x1000 + (byte b1 mod 0x40) * 0x40 + byte b2 mod 0x40, 3)
             else (RuneError, 1)
         | _ \<Rightarrow> (RuneError, 1))
      else
        (case p of
           b1 # b2 # b3 # _ \<Rightarrow>
             if cont_byte (if b0 = 0xF0 then 0x90 else 0x80) (if b0 = 0xF4 then 0x8F else 0xBF) b1
                \<and> cont_byte 0x80 0xBF b2 \<and> cont_byte 0x80 0xBF b3
             then ((b0 mod 0x08) * 0x40000 + (byte b1 mod 0x40) * 0x1000
                   + (byte b2 mod 0x40) * 0x40 + byte b3 mod 0x40, 4)
             else (RuneError, 1)
         | _ \<Rightarrow> (RuneError, 1)))"

text \<open>\<^verbatim>\<open>utf8.ValidString\<close>: every rune decodes; the loop drops the decoded width each time.\<close>

function ValidString :: "string \<Rightarrow> bool" where
  "ValidString s =
     (if s = [] then True
      else (case DecodeRune s of
              (r, w) \<Rightarrow> if r = RuneError \<and> w = 1 then False
                           else ValidString (drop w s)))"
  by pat_completeness auto

termination
  apply (relation "measure length")
   apply simp
  subgoal for s
    by (cases s) (auto simp: Let_def split: if_splits list.splits)
  done

subsection \<open>\<^verbatim>\<open>encoding/base64\<close>\<close>

definition encodeStd :: string where
  "encodeStd = ''ABCDEFGHIJKLMNOPQRSTUVWXYZabcdefghijklmnopqrstuvwxyz0123456789+/''"

definition b64 :: "nat \<Rightarrow> char" where
  "b64 n = encodeStd ! (n mod 64)"

text \<open>\<^verbatim>\<open>base64.StdEncoding.EncodeToString\<close>: three bytes become four characters of the
  standard alphabet, and a last group of one or two bytes is padded with \<^verbatim>\<open>=\<close>.\<close>

fun EncodeToString :: "string \<Rightarrow> string" where
  "EncodeToString (a # b # c # rest) =
     (let v = byte a * 0x10000 + byte b * 0x100 + byte c in
      b64 (v div 0x40000) # b64 (v div 0x1000) # b64 (v div 0x40) # b64 v # EncodeToString rest)"
| "EncodeToString [a, b] =
     (let v = byte a * 0x10000 + byte b * 0x100 in
      [b64 (v div 0x40000), b64 (v div 0x1000), b64 (v div 0x40), CHR ''='']) "
| "EncodeToString [a] =
     (let v = byte a * 0x10000 in
      [b64 (v div 0x40000), b64 (v div 0x1000), CHR ''='', CHR ''=''])"
| "EncodeToString [] = []"

subsection \<open>\<^verbatim>\<open>float64\<close>: conversions and \<^verbatim>\<open>math\<close>\<close>

text \<open>The number of binary digits of a natural number.\<close>

fun bit_length :: "nat \<Rightarrow> nat" where
  "bit_length n = (if n = 0 then 0 else Suc (bit_length (n div 2)))"

declare bit_length.simps [simp del]

text \<open>The quotient \<open>n / d\<close> rounded to the nearest natural number, a tie to the even one.\<close>

definition round_even :: "nat \<Rightarrow> nat \<Rightarrow> nat" where
  "round_even n d =
     (let q = n div d; r = n mod d in
      if 2 * r < d then q
      else if d < 2 * r then q + 1
      else if even q then q else q + 1)"

text \<open>
  The binary exponent of the unit in the last place of the float64 nearest to \<open>n / d\<close>:
  \<open>\<lfloor>log\<^sub>2 (n / d)\<rfloor> - 52\<close>, and \<open>-1074\<close> in the subnormal range.
\<close>

definition quantum :: "nat \<Rightarrow> nat \<Rightarrow> int" where
  "quantum n d =
     (let k = int (bit_length n) - int (bit_length d);
          e = (if (if 0 \<le> k then d * 2 ^ nat k \<le> n else d \<le> n * 2 ^ nat (- k)) then k else k - 1)
      in max (e - 52) (- 1074))"

definition sign_bit :: "bool \<Rightarrow> float64" where
  "sign_bit neg = (if neg then 0x8000000000000000 else 0)"

text \<open>
  IEEE-754 round-to-nearest-even of the rational \<open>\<plusminus> n / d\<close> (\<open>d > 0\<close>) to binary64; \<open>None\<close> when
  the rounded magnitude does not fit (the exponent field would be all ones). With \<open>q\<close> the
  quantum exponent and \<open>m\<close> the rounded significand, the magnitude bits are
  \<open>(q + 1074) * 2\<^sup>5\<^sup>2 + m\<close>: this also carries a significand rounded up to \<open>2\<^sup>5\<^sup>3\<close> into the
  next exponent.
\<close>

definition float64_round :: "bool \<Rightarrow> nat \<Rightarrow> nat \<Rightarrow> float64 option" where
  "float64_round neg n d =
     (if n = 0 then Some (sign_bit neg)
      else
        let q = quantum n d;
            m = (if 0 \<le> q then round_even n (d * 2 ^ nat q) else round_even (n * 2 ^ nat (- q)) d);
            mag = nat (q + 1074) * 2 ^ 52 + m
        in if 0x7FF0000000000000 \<le> mag then None else Some (sign_bit neg OR word_of_nat mag))"

text \<open>The conversions \<^verbatim>\<open>float64(v)\<close> of \<^verbatim>\<open>NewValue\<close>: from a signed and an unsigned integer
  (exact up to \<open>2\<^sup>5\<^sup>3\<close>, rounded beyond), and from a \<^verbatim>\<open>float32\<close> (always exact).\<close>

definition float64_of_int :: "int \<Rightarrow> float64" where
  "float64_of_int i = the (float64_round (i < 0) (nat \<bar>i\<bar>) 1)"

definition float64_of_float32 :: "float32 \<Rightarrow> float64" where
  "float64_of_float32 w =
     (let neg = bit w 31;
          e = unat (drop_bit 23 w) mod 0x100;
          f = unat w mod 0x800000
      in if e = 0xFF then sign_bit neg OR 0x7FF0000000000000 OR push_bit 29 (word_of_nat f)
         else if e = 0 then the (float64_round neg f (2 ^ 149))
         else if 150 \<le> e then the (float64_round neg ((0x800000 + f) * 2 ^ (e - 150)) 1)
         else the (float64_round neg (0x800000 + f) (2 ^ (150 - e))))"

definition exponent_field :: "float64 \<Rightarrow> nat" where
  "exponent_field f = unat (drop_bit 52 f) mod 0x800"

definition fraction_field :: "float64 \<Rightarrow> nat" where
  "fraction_field f = unat f mod 0x10000000000000"

text \<open>\<^verbatim>\<open>math.IsNaN\<close> and \<^verbatim>\<open>math.IsInf\<close> on the bit pattern.\<close>

definition IsNaN :: "float64 \<Rightarrow> bool" where
  "IsNaN f = (exponent_field f = 0x7FF \<and> fraction_field f \<noteq> 0)"

definition IsInf :: "float64 \<Rightarrow> int \<Rightarrow> bool" where
  "IsInf f sign =
     ((0 \<le> sign \<and> f = 0x7FF0000000000000) \<or> (sign \<le> 0 \<and> f = 0xFFF0000000000000))"

text \<open>The two infinities, and the finite numbers: those whose exponent field is not all ones.\<close>

definition PosInf :: float64 where
  "PosInf = 0x7FF0000000000000"

definition NegInf :: float64 where
  "NegInf = 0xFFF0000000000000"

definition is_finite :: "float64 \<Rightarrow> bool" where
  "is_finite f = (exponent_field f \<noteq> 0x7FF)"

section \<open>Conversion from and to native Go values\<close>

text \<open>The constructors \<^verbatim>\<open>NewNullValue\<close> ... \<^verbatim>\<open>NewListValue\<close>.\<close>

definition NewNullValue :: Value where
  "NewNullValue = Value (Some (Value_NullValue (Some NullValue_NULL_VALUE)))"

definition NewBoolValue :: "bool \<Rightarrow> Value" where
  "NewBoolValue v = Value (Some (Value_BoolValue (Some v)))"

definition NewNumberValue :: "float64 \<Rightarrow> Value" where
  "NewNumberValue v = Value (Some (Value_NumberValue (Some v)))"

definition NewStringValue :: "string \<Rightarrow> Value" where
  "NewStringValue v = Value (Some (Value_StringValue (Some v)))"

definition NewStructValue :: "Struct ptr \<Rightarrow> Value" where
  "NewStructValue v = Value (Some (Value_StructValue (Some v)))"

definition NewListValue :: "ListValue ptr \<Rightarrow> Value" where
  "NewListValue v = Value (Some (Value_ListValue (Some v)))"

text \<open>
  \<^verbatim>\<open>NewValue\<close>, \<^verbatim>\<open>NewStruct\<close> and \<^verbatim>\<open>NewList\<close>. The loops of \<^verbatim>\<open>NewStruct\<close> and \<^verbatim>\<open>NewList\<close> are
  the functions \<open>NewStruct_loop\<close> and \<open>NewList_loop\<close>, which carry the container built so
  far; \<^verbatim>\<open>x.Fields[k] = ...\<close> is the update of the association list. Go ranges over a map in
  an unspecified order; the model ranges over the association list from its head.
  Go's \<^verbatim>\<open>int\<close> and \<^verbatim>\<open>uint\<close> are taken as 64 bits wide.
\<close>

fun NewValue :: "native \<Rightarrow> error + Value"
  and NewStruct_loop :: "(string \<times> native) list \<Rightarrow> (string \<times> Value ptr) list \<Rightarrow> error + Struct"
  and NewList_loop :: "native list \<Rightarrow> nat \<Rightarrow> Value ptr list \<Rightarrow> error + ListValue"
where
  "NewValue GoNil = Inr NewNullValue"
| "NewValue (GoBool v) = Inr (NewBoolValue v)"
| "NewValue (GoInt v) = Inr (NewNumberValue (float64_of_int (sint v)))"
| "NewValue (GoInt32 v) = Inr (NewNumberValue (float64_of_int (sint v)))"
| "NewValue (GoInt64 v) = Inr (NewNumberValue (float64_of_int (sint v)))"
| "NewValue (GoUint v) = Inr (NewNumberValue (float64_of_int (uint v)))"
| "NewValue (GoUint32 v) = Inr (NewNumberValue (float64_of_int (uint v)))"
| "NewValue (GoUint64 v) = Inr (NewNumberValue (float64_of_int (uint v)))"
| "NewValue (GoFloat32 v) = Inr (NewNumberValue (float64_of_float32 v))"
| "NewValue (GoFloat64 v) = Inr (NewNumberValue v)"
| "NewValue (GoString v) =
     (if \<not> ValidString v then Inl (InvalidUTF8 v) else Inr (NewStringValue v))"
| "NewValue (GoBytes v) = Inr (NewStringValue (EncodeToString v))"
| "NewValue (GoMap v) =
     (case NewStruct_loop v [] of
        Inl err \<Rightarrow> Inl err
      | Inr v2 \<Rightarrow> Inr (NewStructValue (Some v2)))"
| "NewValue (GoSlice v) =
     (case NewList_loop v 0 (replicate (length v) None) of
        Inl err \<Rightarrow> Inl err
      | Inr v2 \<Rightarrow> Inr (NewListValue (Some v2)))"
| "NewValue GoOther = Inl InvalidType"
| "NewStruct_loop [] fields = Inr (Struct (Some fields))"
| "NewStruct_loop ((k, v) # rest) fields =
     (if \<not> ValidString k then Inl (InvalidUTF8 k)
      else (case NewValue v of
              Inl err \<Rightarrow> Inl err
            | Inr x \<Rightarrow> NewStruct_loop rest (AList.update k (Some x) fields)))"
| "NewList_loop [] i values = Inr (ListValue (Some values))"
| "NewList_loop (v # rest) i values =
     (case NewValue v of
        Inl err \<Rightarrow> Inl err
      | Inr x \<Rightarrow> NewList_loop rest (Suc i) (values[i := Some x]))"

definition NewStruct :: "(string \<times> native) list \<Rightarrow> error + Struct" where
  "NewStruct v = NewStruct_loop v []"

definition NewList :: "native list \<Rightarrow> error + ListValue" where
  "NewList v = NewList_loop v 0 (replicate (length v) None)"

text \<open>
  \<^verbatim>\<open>AsInterface\<close>, \<^verbatim>\<open>AsMap\<close> and \<^verbatim>\<open>AsSlice\<close>. Each receiver is a pointer and may be nil: the
  getters \<^verbatim>\<open>GetKind\<close>, \<^verbatim>\<open>GetFields\<close> and \<^verbatim>\<open>GetValues\<close> return nil for a nil receiver.
  \<open>AsMap_loop\<close> and \<open>AsSlice_loop\<close> are the two \<^verbatim>\<open>range\<close> loops.
\<close>

fun AsInterface :: "Value ptr \<Rightarrow> native"
  and AsInterface_Kind :: "isValue_Kind \<Rightarrow> native"
  and AsMap :: "Struct ptr \<Rightarrow> (string \<times> native) list"
  and AsMap_loop :: "(string \<times> Value ptr) list \<Rightarrow> (string \<times> native) list \<Rightarrow> (string \<times> native) list"
  and AsSlice :: "ListValue ptr \<Rightarrow> native list"
  and AsSlice_loop :: "Value ptr list \<Rightarrow> native list"
where
  "AsInterface None = GoNil"
| "AsInterface (Some (Value None)) = GoNil"
| "AsInterface (Some (Value (Some k))) = AsInterface_Kind k"
| "AsInterface_Kind (Value_NumberValue (Some v)) =
     (if IsNaN v then GoString ''NaN''
      else if IsInf v 1 then GoString ''Infinity''
      else if IsInf v (- 1) then GoString ''-Infinity''
      else GoFloat64 v)"
| "AsInterface_Kind (Value_NumberValue None) = GoNil"
| "AsInterface_Kind (Value_StringValue (Some v)) = GoString v"
| "AsInterface_Kind (Value_StringValue None) = GoNil"
| "AsInterface_Kind (Value_BoolValue (Some v)) = GoBool v"
| "AsInterface_Kind (Value_BoolValue None) = GoNil"
| "AsInterface_Kind (Value_StructValue (Some v)) = GoMap (AsMap v)"
| "AsInterface_Kind (Value_StructValue None) = GoNil"
| "AsInterface_Kind (Value_ListValue (Some v)) = GoSlice (AsSlice v)"
| "AsInterface_Kind (Value_ListValue None) = GoNil"
| "AsInterface_Kind (Value_NullValue v) = GoNil"
| "AsMap None = []"
| "AsMap (Some (Struct None)) = []"
| "AsMap (Some (Struct (Some fields))) = AsMap_loop fields []"
| "AsMap_loop [] vs = vs"
| "AsMap_loop ((k, v) # rest) vs = AsMap_loop rest (AList.update k (AsInterface v) vs)"
| "AsSlice None = []"
| "AsSlice (Some (ListValue None)) = []"
| "AsSlice (Some (ListValue (Some values))) = AsSlice_loop values"
| "AsSlice_loop [] = []"
| "AsSlice_loop (v # rest) = AsInterface v # AsSlice_loop rest"

section \<open>Encoding\<close>

subsection \<open>\<^verbatim>\<open>encoding/json\<close>: \<^verbatim>\<open>Marshal\<close> on the types used\<close>

definition hex :: "nat \<Rightarrow> char" where
  "hex n = ''0123456789abcdef'' ! (n mod 16)"

text \<open>The bytes the encoder copies unchanged (\<^verbatim>\<open>htmlSafeSet\<close>): printable ASCII but for the
  double quote, the backslash and the three characters \<^verbatim>\<open><\<close>, \<^verbatim>\<open>>\<close>, \<^verbatim>\<open>&\<close>.\<close>

definition htmlSafe :: "char \<Rightarrow> bool" where
  "htmlSafe c = (0x20 \<le> byte c \<and> byte c < 0x80 \<and> c \<noteq> CHR 0x22 \<and> c \<noteq> CHR 0x5C
     \<and> c \<noteq> CHR ''<'' \<and> c \<noteq> CHR ''>'' \<and> c \<noteq> CHR ''&'')"

text \<open>
  The loop of the string encoder, with HTML escaping on (the default of \<^verbatim>\<open>json.Marshal\<close>):
  an unsafe ASCII byte is escaped, an invalid UTF-8 byte becomes the escape of U+FFFD, the two
  separators U+2028 and U+2029 are escaped, and every other rune is copied.
\<close>

function appendString :: "string \<Rightarrow> string" where
  "appendString s =
     (case s of
        [] \<Rightarrow> []
      | b # rest \<Rightarrow>
          if byte b < 0x80 then
            (if htmlSafe b then [b]
             else if b = CHR 0x5C \<or> b = CHR 0x22 then [CHR 0x5C, b]
             else if b = CHR 0x0A then [CHR 0x5C, CHR ''n'']
             else if b = CHR 0x0D then [CHR 0x5C, CHR ''r'']
             else if b = CHR 0x09 then [CHR 0x5C, CHR ''t'']
             else [CHR 0x5C, CHR ''u'', CHR ''0'', CHR ''0'', hex (byte b div 16), hex (byte b)])
            @ appendString rest
          else
            (case DecodeRune s of
               (c, w) \<Rightarrow>
                 if c = RuneError \<and> w = 1 then CHR 0x5C # ''ufffd'' @ appendString (drop w s)
                 else if c = 0x2028 \<or> c = 0x2029 then CHR 0x5C # ''u202'' @ hex c # appendString (drop w s)
                 else take w s @ appendString (drop w s)))"
  by pat_completeness auto

termination
  apply (relation "measure length")
    apply simp
   apply simp
  subgoal for s
    by (cases s) (auto simp: Let_def split: if_splits list.splits)
  subgoal for s
    by (cases s) (auto simp: Let_def split: if_splits list.splits)
  subgoal for s
    by (cases s) (auto simp: Let_def split: if_splits list.splits)
  done

definition json_Marshal_string :: "string \<Rightarrow> string" where
  "json_Marshal_string s = CHR 0x22 # appendString s @ [CHR 0x22]"

definition json_Marshal_bool :: "bool \<Rightarrow> string" where
  "json_Marshal_bool b = (if b then ''true'' else ''false'')"

text \<open>
  \<^verbatim>\<open>json.Marshal\<close> of a \<^verbatim>\<open>float64\<close> refuses NaN and the infinities; a finite number is written by
  \<^verbatim>\<open>strconv.AppendFloat\<close> with the shortest digits that read back as the same number. That
  routine is the parameter \<open>fmt\<close> of the encoders below.
\<close>

definition json_Marshal_float64 :: "(float64 \<Rightarrow> string) \<Rightarrow> float64 \<Rightarrow> error + string" where
  "json_Marshal_float64 fmt f =
     (if IsInf f 0 \<or> IsNaN f then Inl (UnsupportedValue f) else Inr (fmt f))"

text \<open>The elements of an array or the members of an object, separated by commas; the first
  element that failed to encode fails the whole.\<close>

fun join_elems :: "(error + string) list \<Rightarrow> error + string" where
  "join_elems [] = Inr []"
| "join_elems [e] = e"
| "join_elems (e # es) =
     (case e of
        Inl err \<Rightarrow> Inl err
      | Inr t \<Rightarrow> (case join_elems es of Inl err \<Rightarrow> Inl err | Inr ts \<Rightarrow> Inr (t @ '','' @ ts)))"

definition json_Marshal_slice :: "(error + string) list \<Rightarrow> error + string" where
  "json_Marshal_slice es =
     (case join_elems es of Inl err \<Rightarrow> Inl err | Inr t \<Rightarrow> Inr (''['' @ t @ '']''))"

definition member :: "string \<times> (error + string) \<Rightarrow> error + string" where
  "member kv =
     (case snd kv of Inl err \<Rightarrow> Inl err | Inr t \<Rightarrow> Inr (json_Marshal_string (fst kv) @ '':'' @ t))"

text \<open>\<^verbatim>\<open>json.Marshal\<close> of a map writes the members in the order of their keys.\<close>

definition json_Marshal_map :: "(string \<times> (error + string)) list \<Rightarrow> error + string" where
  "json_Marshal_map kvs =
     (case join_elems (map member (sort_key fst kvs)) of
        Inl err \<Rightarrow> Inl err
      | Inr t \<Rightarrow> Inr (''{'' @ t @ ''}''))"

subsection \<open>\<^verbatim>\<open>MarshalJSON\<close> of \<^verbatim>\<open>Value\<close>, \<^verbatim>\<open>Struct\<close> and \<^verbatim>\<open>ListValue\<close>\<close>

text \<open>
  All three methods have value receivers. \<^verbatim>\<open>Value.MarshalJSON\<close> calls the other two on the
  pointers \<^verbatim>\<open>StructValue\<close> and \<^verbatim>\<open>ListValue\<close>, which dereferences them: on a nil pointer Go
  panics, here \<open>Inl NilDereference\<close>. \<^verbatim>\<open>json.Marshal\<close> of a slice or a map of \<^verbatim>\<open>*Value\<close> writes
  \<^verbatim>\<open>null\<close> for a nil element and calls \<^verbatim>\<open>MarshalJSON\<close> on every other (\<open>Marshal_elem\<close>); the
  elements are encoded by \<open>Marshal_elems\<close> and \<open>Marshal_fields\<close>.
\<close>

fun Value_MarshalJSON :: "(float64 \<Rightarrow> string) \<Rightarrow> Value \<Rightarrow> error + string"
  and Kind_MarshalJSON :: "(float64 \<Rightarrow> string) \<Rightarrow> isValue_Kind \<Rightarrow> error + string"
  and Struct_MarshalJSON :: "(float64 \<Rightarrow> string) \<Rightarrow> Struct \<Rightarrow> error + string"
  and ListValue_MarshalJSON :: "(float64 \<Rightarrow> string) \<Rightarrow> ListValue \<Rightarrow> error + string"
  and Marshal_elem :: "(float64 \<Rightarrow> string) \<Rightarrow> Value ptr \<Rightarrow> error + string"
  and Marshal_elems :: "(float64 \<Rightarrow> string) \<Rightarrow> Value ptr list \<Rightarrow> (error + string) list"
  and Marshal_fields :: "(float64 \<Rightarrow> string) \<Rightarrow> (string \<times> Value ptr) list \<Rightarrow> (string \<times> (error + string)) list"
where
  "Value_MarshalJSON fmt (Value None) = Inr ''null''"
| "Value_MarshalJSON fmt (Value (Some k)) = Kind_MarshalJSON fmt k"
| "Kind_MarshalJSON fmt (Value_NumberValue (Some v)) = json_Marshal_float64 fmt v"
| "Kind_MarshalJSON fmt (Value_NumberValue None) = Inr ''null''"
| "Kind_MarshalJSON fmt (Value_StringValue (Some v)) = Inr (json_Marshal_string v)"
| "Kind_MarshalJSON fmt (Value_StringValue None) = Inr ''null''"
| "Kind_MarshalJSON fmt (Value_BoolValue (Some v)) = Inr (json_Marshal_bool v)"
| "Kind_MarshalJSON fmt (Value_BoolValue None) = Inr ''null''"
| "Kind_MarshalJSON fmt (Value_StructValue (Some (Some v))) = Struct_MarshalJSON fmt v"
| "Kind_MarshalJSON fmt (Value_StructValue (Some None)) = Inl NilDereference"
| "Kind_MarshalJSON fmt (Value_StructValue None) = Inr ''null''"
| "Kind_MarshalJSON fmt (Value_ListValue (Some (Some v))) = ListValue_MarshalJSON fmt v"
| "Kind_MarshalJSON fmt (Value_ListValue (Some None)) = Inl NilDereference"
| "Kind_MarshalJSON fmt (Value_ListValue None) = Inr ''null''"
| "Kind_MarshalJSON fmt (Value_NullValue v) = Inr ''null''"
| "Struct_MarshalJSON fmt (Struct None) = json_Marshal_map []"
| "Struct_MarshalJSON fmt (Struct (Some fields)) = json_Marshal_map (Marshal_fields fmt fields)"
| "ListValue_MarshalJSON fmt (ListValue None) = json_Marshal_slice []"
| "ListValue_MarshalJSON fmt (ListValue (Some values)) = json_Marshal_slice (Marshal_elems fmt values)"
| "Marshal_elem fmt None = Inr ''null''"
| "Marshal_elem fmt (Some v) = Value_MarshalJSON fmt v"
| "Marshal_elems fmt [] = []"
| "Marshal_elems fmt (v # rest) = Marshal_elem fmt v # Marshal_elems fmt rest"
| "Marshal_fields fmt [] = []"
| "Marshal_fields fmt ((k, v) # rest) = (k, Marshal_elem fmt v) # Marshal_fields fmt rest"

section \<open>Decoding\<close>

subsection \<open>\<^verbatim>\<open>strconv.ParseBool\<close> and \<^verbatim>\<open>strconv.ParseFloat\<close>\<close>

definition ParseBool :: "string \<Rightarrow> bool option" where
  "ParseBool str =
     (if str \<in> set [''1'', ''t'', ''T'', ''true'', ''TRUE'', ''True''] then Some True
      else if str \<in> set [''0'', ''f'', ''F'', ''false'', ''FALSE'', ''False''] then Some False
      else None)"

definition is_digit :: "char \<Rightarrow> bool" where
  "is_digit c = (0x30 \<le> byte c \<and> byte c \<le> 0x39)"

definition digit_val :: "char \<Rightarrow> nat" where
  "digit_val c = byte c - 0x30"

text \<open>\<^verbatim>\<open>lower(c)\<close> of \<^verbatim>\<open>strconv\<close> sets bit 5 of the byte.\<close>

definition lower :: "char \<Rightarrow> nat" where
  "lower c = (if even (byte c div 0x20) then byte c + 0x20 else byte c)"

definition is_hex_letter :: "char \<Rightarrow> bool" where
  "is_hex_letter c = (0x61 \<le> lower c \<and> lower c \<le> 0x66)"

definition to_lower :: "char \<Rightarrow> char" where
  "to_lower c = (if 0x41 \<le> byte c \<and> byte c \<le> 0x5A then char_of (byte c + 0x20) else c)"

definition is_neg :: "string \<Rightarrow> bool" where
  "is_neg s = (case s of c # _ \<Rightarrow> c = CHR ''-'' | [] \<Rightarrow> False)"

definition strip_sign :: "string \<Rightarrow> string" where
  "strip_sign s = (case s of c # r \<Rightarrow> if c = CHR ''+'' \<or> c = CHR ''-'' then r else s | [] \<Rightarrow> [])"

text \<open>\<^verbatim>\<open>special\<close>: the infinities, with an optional sign, and NaN, without one, in any case.
  \<^verbatim>\<open>ParseFloat\<close> accepts them only when they are the whole string.\<close>

definition special :: "string \<Rightarrow> float64 option" where
  "special s =
     (if map to_lower (strip_sign s) = ''inf'' \<or> map to_lower (strip_sign s) = ''infinity''
      then Some (sign_bit (is_neg s) OR 0x7FF0000000000000)
      else if map to_lower s = ''nan'' then Some 0x7FF8000000000001
      else None)"

text \<open>
  The digit loop of \<^verbatim>\<open>readFloat\<close>. The arguments after the input are \<^verbatim>\<open>sawdot\<close>,
  \<^verbatim>\<open>sawdigits\<close>, \<^verbatim>\<open>nd\<close>, \<^verbatim>\<open>dp\<close> and \<^verbatim>\<open>mantissa\<close>; the result adds the input left when the loop
  breaks. Go keeps the first 19 digits in a \<^verbatim>\<open>uint64\<close> and rereads the string when they do not
  decide the rounding; the model keeps every digit.
\<close>

fun readFloat_digits ::
  "bool \<Rightarrow> string \<Rightarrow> bool \<Rightarrow> bool \<Rightarrow> nat \<Rightarrow> int \<Rightarrow> nat \<Rightarrow> bool \<times> bool \<times> nat \<times> int \<times> nat \<times> string"
where
  "readFloat_digits hx [] sawdot sawdigits nd dp m = (sawdot, sawdigits, nd, dp, m, [])"
| "readFloat_digits hx (c # cs) sawdot sawdigits nd dp m =
     (if c = CHR ''_'' then readFloat_digits hx cs sawdot sawdigits nd dp m
      else if c = CHR ''.'' then
        (if sawdot then (sawdot, sawdigits, nd, dp, m, c # cs)
         else readFloat_digits hx cs True sawdigits nd (int nd) m)
      else if is_digit c then
        (if c = CHR ''0'' \<and> nd = 0 then readFloat_digits hx cs sawdot True nd (dp - 1) m
         else readFloat_digits hx cs sawdot True (nd + 1) dp
                (m * (if hx then 16 else 10) + digit_val c))
      else if hx \<and> is_hex_letter c then
        readFloat_digits hx cs sawdot True (nd + 1) dp (m * 16 + (lower c - 0x61 + 10))
      else (sawdot, sawdigits, nd, dp, m, c # cs))"

text \<open>The digits of the exponent: once \<^verbatim>\<open>e\<close> has reached 10000 further digits are skipped.\<close>

fun readFloat_exp :: "string \<Rightarrow> nat \<Rightarrow> nat \<times> string" where
  "readFloat_exp [] e = (e, [])"
| "readFloat_exp (c # cs) e =
     (if c = CHR ''_'' then readFloat_exp cs e
      else if is_digit c then readFloat_exp cs (if e < 10000 then e * 10 + digit_val c else e)
      else (e, c # cs))"

text \<open>\<^verbatim>\<open>underscoreOK\<close>: an underscore stands only between digits, or between a base prefix and
  a digit. The second argument is the last character seen: a digit, an underscore or another.\<close>

fun underscore_loop :: "bool \<Rightarrow> char \<Rightarrow> string \<Rightarrow> bool" where
  "underscore_loop hx saw [] = (saw \<noteq> CHR ''_'')"
| "underscore_loop hx saw (c # cs) =
     (if is_digit c \<or> (hx \<and> is_hex_letter c) then underscore_loop hx (CHR ''0'') cs
      else if c = CHR ''_'' then (if saw \<noteq> CHR ''0'' then False else underscore_loop hx (CHR ''_'') cs)
      else if saw = CHR ''_'' then False
      else underscore_loop hx (CHR ''!'') cs)"

definition underscoreOK :: "string \<Rightarrow> bool" where
  "underscoreOK s =
     (let t = strip_sign s in
      if 2 \<le> length t \<and> t ! 0 = CHR ''0''
         \<and> (lower (t ! 1) = 0x62 \<or> lower (t ! 1) = 0x6F \<or> lower (t ! 1) = 0x78)
      then underscore_loop (lower (t ! 1) = 0x78) (CHR ''0'') (drop 2 t)
      else underscore_loop False (CHR ''^'') t)"

text \<open>
  The optional exponent of \<^verbatim>\<open>readFloat\<close>, from the input the digit loop left: the signed
  exponent, \<open>None\<close> for a syntax error. A hexadecimal number must have an exponent, and
  \<^verbatim>\<open>ParseFloat\<close> reports a syntax error when anything is left after the number.
\<close>

definition readFloat_tail :: "bool \<Rightarrow> string \<Rightarrow> int option" where
  "readFloat_tail hx rest =
     (case rest of
        [] \<Rightarrow> if hx then None else Some 0
      | c # r \<Rightarrow>
          if lower c \<noteq> (if hx then 0x70 else 0x65) then None
          else (case r of
                  [] \<Rightarrow> None
                | c' # r' \<Rightarrow>
                    let esign = (if c' = CHR ''-'' then - 1 else 1 :: int);
                        ds = (if c' = CHR ''+'' \<or> c' = CHR ''-'' then r' else r)
                    in case ds of
                         [] \<Rightarrow> None
                       | d # _ \<Rightarrow>
                           if \<not> is_digit d then None
                           else (case readFloat_exp ds 0 of
                                   (e, rest') \<Rightarrow> if rest' \<noteq> [] then None else Some (int e * esign))))"

text \<open>
  \<^verbatim>\<open>readFloat\<close> on a string it must consume whole: the sign, whether the number is
  hexadecimal, the mantissa and the exponent of 10 (of 2 for a hexadecimal number).
\<close>

definition readFloat :: "string \<Rightarrow> (bool \<times> bool \<times> nat \<times> int) option" where
  "readFloat s =
     (let t = strip_sign s;
          hx = (2 < length t \<and> t ! 0 = CHR ''0'' \<and> lower (t ! 1) = 0x78)
      in if s = [] then None
         else case readFloat_digits hx (if hx then drop 2 t else t) False False 0 0 0 of
           (sawdot, sawdigits, nd, dp0, m, rest) \<Rightarrow>
             if \<not> sawdigits then None
             else
               let dp1 = (if sawdot then dp0 else int nd);
                   dp2 = (if hx then dp1 * 4 else dp1);
                   ndMant = (if hx then nd * 4 else nd)
               in case readFloat_tail hx rest of
                    None \<Rightarrow> None
                  | Some e \<Rightarrow>
                      if CHR ''_'' \<in> set s \<and> \<not> underscoreOK s then None
                      else Some (is_neg s, hx, m, if m \<noteq> 0 then dp2 + e - int ndMant else 0))"

text \<open>
  \<^verbatim>\<open>strconv.ParseFloat(s, 0)\<close>: the float64 nearest to the number written, \<open>None\<close> for any
  error: a syntax error, or a range error when the number rounds beyond the largest float64.
\<close>

definition ParseFloat :: "string \<Rightarrow> float64 option" where
  "ParseFloat s =
     (case special s of
        Some f \<Rightarrow> Some f
      | None \<Rightarrow>
          (case readFloat s of
             None \<Rightarrow> None
           | Some (neg, hx, m, e) \<Rightarrow>
               let b = (if hx then 2 else 10 :: nat)
               in if 0 \<le> e then float64_round neg (m * b ^ nat e) 1
                  else float64_round neg m (b ^ nat (- e))))"

subsection \<open>\<^verbatim>\<open>encoding/json\<close>: the scanner\<close>

text \<open>
  The scanner of \<^verbatim>\<open>encoding/json\<close> is a state machine that reads one byte at a time: a step
  function (\<open>scan_state\<close>) and a stack of the arrays and objects that are open
  (\<open>parse_state\<close>). \<open>step\<close> is that machine; \<open>None\<close> is a syntax error. The state
  \<open>stateEndValue\<close> on an empty stack is the scanner's \<^verbatim>\<open>stateEndTop\<close>. The nesting depth is not
  bounded.
\<close>

datatype parse_state = parseObjectKey | parseObjectValue | parseArrayValue

datatype scan_state =
    stateBeginValueOrEmpty | stateBeginValue | stateBeginStringOrEmpty | stateBeginString
  | stateEndValue
  | stateInString | stateInStringEsc | stateInStringEscU | stateInStringEscU1
  | stateInStringEscU12 | stateInStringEscU123
  | stateNeg | state1 | state0 | stateDot | stateDot0 | stateE | stateESign | stateE0
  | stateT | stateTr | stateTru | stateF | stateFa | stateFal | stateFals
  | stateN | stateNu | stateNul

definition isSpace :: "char \<Rightarrow> bool" where
  "isSpace c = (c = CHR '' '' \<or> c = CHR 0x09 \<or> c = CHR 0x0D \<or> c = CHR 0x0A)"

definition is_hex :: "char \<Rightarrow> bool" where
  "is_hex c = (is_digit c \<or> (0x61 \<le> byte c \<and> byte c \<le> 0x66) \<or> (0x41 \<le> byte c \<and> byte c \<le> 0x46))"

definition endValue :: "parse_state list \<Rightarrow> char \<Rightarrow> (parse_state list \<times> scan_state) option" where
  "endValue stk c =
     (case stk of
        [] \<Rightarrow> if isSpace c then Some ([], stateEndValue) else None
      | ps # rest \<Rightarrow>
          if isSpace c then Some (stk, stateEndValue)
          else (case ps of
                  parseObjectKey \<Rightarrow>
                    if c = CHR '':'' then Some (parseObjectValue # rest, stateBeginValue) else None
                | parseObjectValue \<Rightarrow>
                    if c = CHR '','' then Some (parseObjectKey # rest, stateBeginString)
                    else if c = CHR ''}'' then Some (rest, stateEndValue)
                    else None
                | parseArrayValue \<Rightarrow>
                    if c = CHR '','' then Some (stk, stateBeginValue)
                    else if c = CHR '']'' then Some (rest, stateEndValue)
                    else None))"

definition beginValue :: "parse_state list \<Rightarrow> char \<Rightarrow> (parse_state list \<times> scan_state) option" where
  "beginValue stk c =
     (if c = CHR ''{'' then Some (parseObjectKey # stk, stateBeginStringOrEmpty)
      else if c = CHR ''['' then Some (parseArrayValue # stk, stateBeginValueOrEmpty)
      else if c = CHR 0x22 then Some (stk, stateInString)
      else if c = CHR ''-'' then Some (stk, stateNeg)
      else if c = CHR ''0'' then Some (stk, state0)
      else if c = CHR ''t'' then Some (stk, stateT)
      else if c = CHR ''f'' then Some (stk, stateF)
      else if c = CHR ''n'' then Some (stk, stateN)
      else if is_digit c then Some (stk, state1)
      else None)"

definition expect :: "parse_state list \<Rightarrow> char \<Rightarrow> char \<Rightarrow> scan_state \<Rightarrow> (parse_state list \<times> scan_state) option" where
  "expect stk c want st = (if c = want then Some (stk, st) else None)"

fun step :: "parse_state list \<Rightarrow> scan_state \<Rightarrow> char \<Rightarrow> (parse_state list \<times> scan_state) option" where
  "step stk stateBeginValueOrEmpty c =
     (if isSpace c then Some (stk, stateBeginValueOrEmpty)
      else if c = CHR '']'' then endValue stk c
      else beginValue stk c)"
| "step stk stateBeginValue c =
     (if isSpace c then Some (stk, stateBeginValue) else beginValue stk c)"
| "step stk stateBeginStringOrEmpty c =
     (if isSpace c then Some (stk, stateBeginStringOrEmpty)
      else if c = CHR ''}'' then endValue (parseObjectValue # tl stk) c
      else expect stk c (CHR 0x22) stateInString)"
| "step stk stateBeginString c =
     (if isSpace c then Some (stk, stateBeginString) else expect stk c (CHR 0x22) stateInString)"
| "step stk stateEndValue c = endValue stk c"
| "step stk stateInString c =
     (if c = CHR 0x22 then Some (stk, stateEndValue)
      else if c = CHR 0x5C then Some (stk, stateInStringEsc)
      else if byte c < 0x20 then None
      else Some (stk, stateInString))"
| "step stk stateInStringEsc c =
     (if c \<in> set [CHR ''b'', CHR ''f'', CHR ''n'', CHR ''r'', CHR ''t'', CHR 0x5C, CHR ''/'', CHR 0x22]
      then Some (stk, stateInString)
      else expect stk c (CHR ''u'') stateInStringEscU)"
| "step stk stateInStringEscU c = (if is_hex c then Some (stk, stateInStringEscU1) else None)"
| "step stk stateInStringEscU1 c = (if is_hex c then Some (stk, stateInStringEscU12) else None)"
| "step stk stateInStringEscU12 c = (if is_hex c then Some (stk, stateInStringEscU123) else None)"
| "step stk stateInStringEscU123 c = (if is_hex c then Some (stk, stateInString) else None)"
| "step stk stateNeg c =
     (if c = CHR ''0'' then Some (stk, state0)
      else if is_digit c then Some (stk, state1)
      else None)"
| "step stk state1 c =
     (if is_digit c then Some (stk, state1)
      else if c = CHR ''.'' then Some (stk, stateDot)
      else if c = CHR ''e'' \<or> c = CHR ''E'' then Some (stk, stateE)
      else endValue stk c)"
| "step stk state0 c =
     (if c = CHR ''.'' then Some (stk, stateDot)
      else if c = CHR ''e'' \<or> c = CHR ''E'' then Some (stk, stateE)
      else endValue stk c)"
| "step stk stateDot c = (if is_digit c then Some (stk, stateDot0) else None)"
| "step stk stateDot0 c =
     (if is_digit c then Some (stk, stateDot0)
      else if c = CHR ''e'' \<or> c = CHR ''E'' then Some (stk, stateE)
      else endValue stk c)"
| "step stk stateE c =
     (if c = CHR ''+'' \<or> c = CHR ''-'' then Some (stk, stateESign)
      else if is_digit c then Some (stk, stateE0)
      else None)"
| "step stk stateESign c = (if is_digit c then Some (stk, stateE0) else None)"
| "step stk stateE0 c = (if is_digit c then Some (stk, stateE0) else endValue stk c)"
| "step stk stateT c = expect stk c (CHR ''r'') stateTr"
| "step stk stateTr c = expect stk c (CHR ''u'') stateTru"
| "step stk stateTru c = expect stk c (CHR ''e'') stateEndValue"
| "step stk stateF c = expect stk c (CHR ''a'') stateFa"
| "step stk stateFa c = expect stk c (CHR ''l'') stateFal"
| "step stk stateFal c = expect stk c (CHR ''s'') stateFals"
| "step stk stateFals c = expect stk c (CHR ''e'') stateEndValue"
| "step stk stateN c = expect stk c (CHR ''u'') stateNu"
| "step stk stateNu c = expect stk c (CHR ''l'') stateNul"
| "step stk stateNul c = expect stk c (CHR ''l'') stateEndValue"

fun run :: "parse_state list \<Rightarrow> scan_state \<Rightarrow> string \<Rightarrow> (parse_state list \<times> scan_state) option" where
  "run stk st [] = Some (stk, st)"
| "run stk st (c # cs) =
     (case step stk st c of None \<Rightarrow> None | Some (stk', st') \<Rightarrow> run stk' st' cs)"

text \<open>\<^verbatim>\<open>checkValid\<close>: the scanner accepts every byte, and at the end of the input (where it is
  fed one space) the top-level value is complete.\<close>

definition checkValid :: "string \<Rightarrow> bool" where
  "checkValid s =
     (case run [] stateBeginValue s of
        None \<Rightarrow> False
      | Some (stk, st) \<Rightarrow> step stk st (CHR '' '') = Some ([], stateEndValue))"

subsection \<open>\<^verbatim>\<open>encoding/json\<close>: the decoder on the three targets used\<close>

fun skipSpace :: "string \<Rightarrow> string" where
  "skipSpace [] = []"
| "skipSpace (c # cs) = (if isSpace c then skipSpace cs else c # cs)"

text \<open>
  The states in which a number may end, and the bytes that continue it there: every other
  byte ends the number and is handled as the byte after a value.
\<close>

definition number_end :: "scan_state \<Rightarrow> bool" where
  "number_end st = (st = state0 \<or> st = state1 \<or> st = stateDot0 \<or> st = stateE0)"

definition number_cont :: "scan_state \<Rightarrow> char \<Rightarrow> bool" where
  "number_cont st c =
     ((is_digit c \<and> st \<noteq> state0)
      \<or> (c = CHR ''.'' \<and> (st = state0 \<or> st = state1))
      \<or> ((c = CHR ''e'' \<or> c = CHR ''E'') \<and> st \<noteq> stateE0))"

text \<open>
  The number of bytes of the value that starts the input: the decoder's \<^verbatim>\<open>skip\<close> and
  \<^verbatim>\<open>rescanLiteral\<close>, which delimit the raw bytes of an element. The stack counts the
  containers opened inside the value.
\<close>

fun value_len :: "parse_state list \<Rightarrow> scan_state \<Rightarrow> string \<Rightarrow> nat option" where
  "value_len stk st [] = (if stk = [] \<and> number_end st then Some 0 else None)"
| "value_len stk st (c # cs) =
     (if stk = [] \<and> number_end st \<and> \<not> number_cont st c then Some 0
      else (case step stk st c of
              None \<Rightarrow> None
            | Some (stk', st') \<Rightarrow>
                if stk' = [] \<and> st' = stateEndValue then Some 1
                else map_option Suc (value_len stk' st' cs)))"

text \<open>\<^verbatim>\<open>utf8.EncodeRune\<close>, and the helpers of \<^verbatim>\<open>unquoteBytes\<close>.\<close>

definition EncodeRune :: "nat \<Rightarrow> string" where
  "EncodeRune r =
     (if r \<le> 0x7F then [char_of r]
      else if r \<le> 0x7FF then [char_of (0xC0 + r div 0x40), char_of (0x80 + r mod 0x40)]
      else if (0xD800 \<le> r \<and> r \<le> 0xDFFF) \<or> 0x10FFFF < r then [CHR 0xEF, CHR 0xBF, CHR 0xBD]
      else if r \<le> 0xFFFF then
        [char_of (0xE0 + r div 0x1000), char_of (0x80 + r div 0x40 mod 0x40), char_of (0x80 + r mod 0x40)]
      else
        [char_of (0xF0 + r div 0x40000), char_of (0x80 + r div 0x1000 mod 0x40),
         char_of (0x80 + r div 0x40 mod 0x40), char_of (0x80 + r mod 0x40)])"

definition hex_val :: "char \<Rightarrow> nat" where
  "hex_val c =
     (if is_digit c then byte c - 0x30
      else if 0x61 \<le> byte c then byte c - 0x61 + 10
      else byte c - 0x41 + 10)"

definition getu4 :: "string \<Rightarrow> nat option" where
  "getu4 s =
     (case s of
        b # u # h1 # h2 # h3 # h4 # _ \<Rightarrow>
          if b = CHR 0x5C \<and> u = CHR ''u'' \<and> is_hex h1 \<and> is_hex h2 \<and> is_hex h3 \<and> is_hex h4
          then Some (hex_val h1 * 0x1000 + hex_val h2 * 0x100 + hex_val h3 * 0x10 + hex_val h4)
          else None
      | _ \<Rightarrow> None)"

definition IsSurrogate :: "nat \<Rightarrow> bool" where
  "IsSurrogate r = (0xD800 \<le> r \<and> r < 0xE000)"

definition utf16_DecodeRune :: "nat \<Rightarrow> nat option \<Rightarrow> nat" where
  "utf16_DecodeRune r1 r2 =
     (case r2 of
        None \<Rightarrow> RuneError
      | Some r2 \<Rightarrow>
          if 0xD800 \<le> r1 \<and> r1 < 0xDC00 \<and> 0xDC00 \<le> r2 \<and> r2 < 0xE000
          then (r1 - 0xD800) * 0x400 + (r2 - 0xDC00) + 0x10000
          else RuneError)"

text \<open>
  The loop of \<^verbatim>\<open>unquoteBytes\<close> over the bytes between the quotes: escapes are replaced, a pair
  of surrogate escapes is combined, and a byte sequence that is not UTF-8 becomes U+FFFD.
\<close>

function unquote_loop :: "string \<Rightarrow> string option" where
  "unquote_loop s =
     (case s of
        [] \<Rightarrow> Some []
      | c # cs \<Rightarrow>
          if c = CHR 0x5C then
            (case cs of
               [] \<Rightarrow> None
             | e # r \<Rightarrow>
                 if e = CHR 0x22 \<or> e = CHR 0x5C \<or> e = CHR ''/'' \<or> e = CHR 0x27
                 then map_option ((#) e) (unquote_loop r)
                 else if e = CHR ''b'' then map_option ((#) (CHR 0x08)) (unquote_loop r)
                 else if e = CHR ''f'' then map_option ((#) (CHR 0x0C)) (unquote_loop r)
                 else if e = CHR ''n'' then map_option ((#) (CHR 0x0A)) (unquote_loop r)
                 else if e = CHR ''r'' then map_option ((#) (CHR 0x0D)) (unquote_loop r)
                 else if e = CHR ''t'' then map_option ((#) (CHR 0x09)) (unquote_loop r)
                 else if e = CHR ''u'' then
                   (case getu4 s of
                      None \<Rightarrow> None
                    | Some rr \<Rightarrow>
                        if IsSurrogate rr then
                          (let dec = utf16_DecodeRune rr (getu4 (drop 6 s)) in
                           if dec \<noteq> RuneError
                           then map_option ((@) (EncodeRune dec)) (unquote_loop (drop 12 s))
                           else map_option ((@) (EncodeRune RuneError)) (unquote_loop (drop 6 s)))
                        else map_option ((@) (EncodeRune rr)) (unquote_loop (drop 6 s)))
                 else None)
          else if c = CHR 0x22 \<or> byte c < 0x20 then None
          else if byte c < 0x80 then map_option ((#) c) (unquote_loop cs)
          else (case DecodeRune s of
                  (rr, w) \<Rightarrow> map_option ((@) (EncodeRune rr)) (unquote_loop (drop w s))))"
  by pat_completeness auto

termination
  apply (relation "measure length")
              apply simp_all
  subgoal for s
    by (cases s) (auto simp: Let_def split: if_splits list.splits)
  done

definition unquoteBytes :: "string \<Rightarrow> string option" where
  "unquoteBytes s =
     (if length s < 2 \<or> hd s \<noteq> CHR 0x22 \<or> last s \<noteq> CHR 0x22 then None
      else unquote_loop (butlast (tl s)))"

text \<open>
  The elements of an array, from the byte after its \<^verbatim>\<open>[\<close>: the raw bytes of each element,
  without the space around it.
\<close>

function array_rest :: "string \<Rightarrow> string list option" where
  "array_rest r =
     (case value_len [] stateBeginValue r of
        None \<Rightarrow> None
      | Some n \<Rightarrow>
          (case skipSpace (drop n r) of
             [] \<Rightarrow> None
           | c # r2 \<Rightarrow>
               if c = CHR '','' then map_option ((#) (take n r)) (array_rest (skipSpace r2))
               else if c = CHR '']'' then Some [take n r]
               else None))"
  by pat_completeness auto

lemma skipSpace_length: "length (skipSpace s) \<le> length s"
  by (induction s) auto

lemma skipSpace_Cons_length: "skipSpace s = c # r \<Longrightarrow> length r < length s"
  using skipSpace_length [of s] by simp

termination array_rest
  apply (relation "measure length")
   apply simp
  subgoal for r n c r2
    using skipSpace_Cons_length [of "drop n r" c r2] skipSpace_length [of r2] by simp
  done

definition array_elems :: "string \<Rightarrow> string list option" where
  "array_elems r =
     (case skipSpace r of
        [] \<Rightarrow> None
      | c # r' \<Rightarrow> if c = CHR '']'' then Some [] else array_rest (c # r'))"

text \<open>The members of an object, from the byte after its \<^verbatim>\<open>{\<close>: each key unquoted, with the
  raw bytes of its value.\<close>

function object_rest :: "string \<Rightarrow> (string \<times> string) list option" where
  "object_rest r =
     (case value_len [] stateBeginString r of
        None \<Rightarrow> None
      | Some n \<Rightarrow>
          (case unquoteBytes (take n r) of
             None \<Rightarrow> None
           | Some k \<Rightarrow>
               (case skipSpace (drop n r) of
                  [] \<Rightarrow> None
                | c # r1 \<Rightarrow>
                    if c \<noteq> CHR '':'' then None
                    else
                      (case value_len [] stateBeginValue (skipSpace r1) of
                         None \<Rightarrow> None
                       | Some m \<Rightarrow>
                           (case skipSpace (drop m (skipSpace r1)) of
                              [] \<Rightarrow> None
                            | c' # r3 \<Rightarrow>
                                if c' = CHR '','' then
                                  map_option ((#) (k, take m (skipSpace r1))) (object_rest (skipSpace r3))
                                else if c' = CHR ''}'' then Some [(k, take m (skipSpace r1))]
                                else None)))))"
  by pat_completeness auto

termination object_rest
  apply (relation "measure length")
   apply simp
  subgoal for r n k c r1 m c' r3
    using skipSpace_Cons_length [of "drop n r" c r1] skipSpace_length [of r1]
      skipSpace_Cons_length [of "drop m (skipSpace r1)" c' r3] skipSpace_length [of r3]
    by simp
  done

definition object_members :: "string \<Rightarrow> (string \<times> string) list option" where
  "object_members r =
     (case skipSpace r of
        [] \<Rightarrow> None
      | c # r' \<Rightarrow> if c = CHR ''}'' then Some [] else object_rest (c # r'))"

text \<open>
  \<^verbatim>\<open>json.Unmarshal\<close> into a \<^verbatim>\<open>[]json.RawMessage\<close>, into a \<^verbatim>\<open>map[string]json.RawMessage\<close> and
  into a \<^verbatim>\<open>string\<close>. Each first checks the whole input; then an input of the wrong kind is
  a type error, and \<^verbatim>\<open>null\<close> leaves the target as it was (nil, or the empty string) with no
  error. A key that occurs again replaces the earlier member of the map.
\<close>

definition json_Unmarshal_slice :: "string \<Rightarrow> json_error + string list" where
  "json_Unmarshal_slice s =
     (if \<not> checkValid s then Inl SyntaxError
      else (case skipSpace s of
              [] \<Rightarrow> Inl SyntaxError
            | c # r \<Rightarrow>
                if c = CHR ''['' then (case array_elems r of None \<Rightarrow> Inl SyntaxError | Some es \<Rightarrow> Inr es)
                else if c = CHR ''n'' then Inr []
                else Inl UnmarshalTypeError))"

fun store_members :: "(string \<times> string) list \<Rightarrow> (string \<times> string) list \<Rightarrow> (string \<times> string) list" where
  "store_members [] m = m"
| "store_members ((k, v) # rest) m = store_members rest (AList.update k v m)"

definition json_Unmarshal_map :: "string \<Rightarrow> json_error + (string \<times> string) list" where
  "json_Unmarshal_map s =
     (if \<not> checkValid s then Inl SyntaxError
      else (case skipSpace s of
              [] \<Rightarrow> Inl SyntaxError
            | c # r \<Rightarrow>
                if c = CHR ''{'' then
                  (case object_members r of None \<Rightarrow> Inl SyntaxError | Some kvs \<Rightarrow> Inr (store_members kvs []))
                else if c = CHR ''n'' then Inr []
                else Inl UnmarshalTypeError))"

definition json_Unmarshal_string :: "string \<Rightarrow> json_error + string" where
  "json_Unmarshal_string s =
     (if \<not> checkValid s then Inl SyntaxError
      else (case skipSpace s of
              [] \<Rightarrow> Inl SyntaxError
            | c # r \<Rightarrow>
                if c = CHR 0x22 then
                  (case value_len [] stateBeginValue (c # r) of
                     None \<Rightarrow> Inl SyntaxError
                   | Some n \<Rightarrow>
                       (case unquoteBytes (take n (c # r)) of
                          None \<Rightarrow> Inl SyntaxError
                        | Some t \<Rightarrow> Inr t))
                else if c = CHR ''n'' then Inr []
                else Inl UnmarshalTypeError))"

subsection \<open>\<^verbatim>\<open>unquote\<close> and the three \<^verbatim>\<open>unmarshal\<close> methods\<close>

definition unquote :: "string \<Rightarrow> json_error + string" where
  "unquote s = json_Unmarshal_string s"

text \<open>The measure of the recursion: every raw element is shorter than the array or object
  it was cut from.\<close>

definition raw_size :: "string list \<Rightarrow> nat" where
  "raw_size es = sum_list (map (\<lambda>e. 2 * length e + 2) es)"

lemma raw_size_simps [simp]:
  "raw_size [] = 0"
  "raw_size (e # es) = 2 * length e + 2 + raw_size es"
  by (simp_all add: raw_size_def)

lemma array_rest_size: "array_rest r = Some es \<Longrightarrow> raw_size es \<le> 2 * length r"
proof (induction r arbitrary: es rule: array_rest.induct)
  case (1 r)
  from "1.prems" obtain n where n: "value_len [] stateBeginValue r = Some n"
    by (subst (asm) array_rest.simps) (auto split: option.splits)
  from "1.prems" n obtain c r2 where c: "skipSpace (drop n r) = c # r2"
    by (subst (asm) array_rest.simps) (auto split: list.splits)
  from skipSpace_Cons_length [OF c] have len: "n < length r" "length r2 < length r - n"
    by auto
  show ?case
  proof (cases "c = CHR '',''")
    case True
    with "1.prems" n c obtain es' where es': "array_rest (skipSpace r2) = Some es'"
      and es: "es = take n r # es'"
      by (subst (asm) array_rest.simps) auto
    from "1.IH" [OF n c True es'] have "raw_size es' \<le> 2 * length (skipSpace r2)" .
    with skipSpace_length [of r2] len es show ?thesis by simp
  next
    case False
    with "1.prems" n c have "es = [take n r]"
      by (subst (asm) array_rest.simps) (auto split: if_splits)
    with len show ?thesis by simp
  qed
qed

lemma json_Unmarshal_slice_size:
  assumes "json_Unmarshal_slice s = Inr es"
  shows "raw_size es < 2 * length s"
proof -
  from assms obtain c r where c: "skipSpace s = c # r"
    by (auto simp: json_Unmarshal_slice_def split: if_splits list.splits)
  from skipSpace_Cons_length [OF c] have len: "length r < length s" .
  show ?thesis
  proof (cases "c = CHR ''[''")
    case True
    with assms c have el: "array_elems r = Some es"
      by (auto simp: json_Unmarshal_slice_def split: if_splits option.splits)
    then obtain c' r' where c': "skipSpace r = c' # r'"
      by (auto simp: array_elems_def split: list.splits)
    show ?thesis
    proof (cases "c' = CHR '']''")
      case True
      with el c' have "es = []" by (simp add: array_elems_def)
      with len show ?thesis by auto
    next
      case False
      with el c' have "array_rest (c' # r') = Some es" by (simp add: array_elems_def)
      from array_rest_size [OF this] c' skipSpace_length [of r] len show ?thesis by simp
    qed
  next
    case False
    with assms c have "es = []"
      by (auto simp: json_Unmarshal_slice_def split: if_splits)
    with len show ?thesis by auto
  qed
qed

lemma object_rest_size: "object_rest r = Some kvs \<Longrightarrow> raw_size (map snd kvs) \<le> 2 * length r"
proof (induction r arbitrary: kvs rule: object_rest.induct)
  case (1 r)
  from "1.prems" obtain n where n: "value_len [] stateBeginString r = Some n"
    by (subst (asm) object_rest.simps) (auto split: option.splits)
  from "1.prems" n obtain k where k: "unquoteBytes (take n r) = Some k"
    by (subst (asm) object_rest.simps) (auto split: option.splits)
  from "1.prems" n k obtain c r1 where c: "skipSpace (drop n r) = c # r1"
    by (subst (asm) object_rest.simps) (auto split: list.splits)
  from "1.prems" n k c have colon: "\<not> c \<noteq> CHR '':''"
    by (subst (asm) object_rest.simps) (auto split: if_splits)
  from "1.prems" n k c colon obtain m where m: "value_len [] stateBeginValue (skipSpace r1) = Some m"
    by (subst (asm) object_rest.simps) (auto split: option.splits)
  from "1.prems" n k c colon m obtain c' r3 where c': "skipSpace (drop m (skipSpace r1)) = c' # r3"
    by (subst (asm) object_rest.simps) (auto split: list.splits)
  from skipSpace_Cons_length [OF c] have l1: "length r1 < length r" by simp
  from skipSpace_Cons_length [OF c'] have l2: "m < length (skipSpace r1)"
    "length r3 < length (skipSpace r1) - m" by auto
  show ?case
  proof (cases "c' = CHR '',''")
    case True
    with "1.prems" n k c colon m c' obtain kvs' where kvs': "object_rest (skipSpace r3) = Some kvs'"
      and kvs: "kvs = (k, take m (skipSpace r1)) # kvs'"
      by (subst (asm) object_rest.simps) auto
    from "1.IH" [OF n k c colon m c' True kvs']
    have "raw_size (map snd kvs') \<le> 2 * length (skipSpace r3)" .
    with skipSpace_length [of r3] skipSpace_length [of r1] l1 l2 kvs show ?thesis by simp
  next
    case False
    with "1.prems" n k c colon m c' have "kvs = [(k, take m (skipSpace r1))]"
      by (subst (asm) object_rest.simps) (auto split: if_splits)
    with skipSpace_length [of r1] l1 l2 show ?thesis by simp
  qed
qed

lemma update_size:
  "raw_size (map snd (AList.update k v m)) \<le> raw_size (map snd m) + 2 * length v + 2"
  by (induction m) auto

lemma store_members_size:
  "raw_size (map snd (store_members kvs m)) \<le> raw_size (map snd m) + raw_size (map snd kvs)"
proof (induction kvs m rule: store_members.induct)
  case (1 m)
  show ?case by simp
next
  case (2 k v rest m)
  with update_size [of k v m] show ?case by simp
qed

lemma json_Unmarshal_map_size:
  assumes "json_Unmarshal_map s = Inr m"
  shows "raw_size (map snd m) < 2 * length s"
proof -
  from assms obtain c r where c: "skipSpace s = c # r"
    by (auto simp: json_Unmarshal_map_def split: if_splits list.splits)
  from skipSpace_Cons_length [OF c] have len: "length r < length s" .
  show ?thesis
  proof (cases "c = CHR ''{''")
    case True
    with assms c obtain kvs where el: "object_members r = Some kvs" and m: "m = store_members kvs []"
      by (auto simp: json_Unmarshal_map_def split: if_splits option.splits)
    then obtain c' r' where c': "skipSpace r = c' # r'"
      by (auto simp: object_members_def split: list.splits)
    have "raw_size (map snd kvs) \<le> 2 * length r"
    proof (cases "c' = CHR ''}''")
      case True
      with el c' have "kvs = []" by (simp add: object_members_def)
      then show ?thesis by simp
    next
      case False
      with el c' have "object_rest (c' # r') = Some kvs" by (simp add: object_members_def)
      from object_rest_size [OF this] c' skipSpace_length [of r] show ?thesis by simp
    qed
    with store_members_size [of kvs "[]"] m len show ?thesis by simp
  next
    case False
    with assms c have "m = []"
      by (auto simp: json_Unmarshal_map_def split: if_splits)
    with len show ?thesis by auto
  qed
qed

text \<open>
  A method that assigns through its pointer receiver takes the receiver's state and returns
  the new one, with the error if any. \<open>ListValue_loop\<close> and \<open>Struct_loop\<close> are the \<^verbatim>\<open>range\<close>
  loops: they carry the slice \<^verbatim>\<open>x.Values\<close> and the map \<^verbatim>\<open>x.Fields\<close> built so far. Go ranges over
  the map \<^verbatim>\<open>m\<close> in an unspecified order; the model ranges over the association list from
  its head.
\<close>

function Value_unmarshal :: "Value \<Rightarrow> string \<Rightarrow> Value \<times> error option"
  and ListValue_unmarshal :: "ListValue \<Rightarrow> string \<Rightarrow> ListValue \<times> error option"
  and ListValue_loop :: "string list \<Rightarrow> nat \<Rightarrow> Value ptr list \<Rightarrow> Value ptr list \<times> error option"
  and Struct_unmarshal :: "Struct \<Rightarrow> string \<Rightarrow> Struct \<times> error option"
  and Struct_loop ::
    "(string \<times> string) list \<Rightarrow> (string \<times> Value ptr) list \<Rightarrow> (string \<times> Value ptr) list \<times> error option"
where
  "Value_unmarshal x inputValue =
     (if inputValue = ''null'' then (Value (Some (Value_NullValue (Some NullValue_NULL_VALUE))), None)
      else (case ParseFloat inputValue of
        Some v \<Rightarrow> (Value (Some (Value_NumberValue (Some v))), None)
      | None \<Rightarrow>
      (case unquote inputValue of
        Inr v \<Rightarrow> (Value (Some (Value_StringValue (Some v))), None)
      | Inl _ \<Rightarrow>
      (case ParseBool inputValue of
        Some v \<Rightarrow> (Value (Some (Value_BoolValue (Some v))), None)
      | None \<Rightarrow>
      (case json_Unmarshal_slice inputValue of
        Inr _ \<Rightarrow>
          (case ListValue_unmarshal (ListValue None) inputValue of
             (lv, err) \<Rightarrow> (Value (Some (Value_ListValue (Some (Some lv)))), err))
      | Inl _ \<Rightarrow>
      (case json_Unmarshal_map inputValue of
        Inr _ \<Rightarrow>
          (case Struct_unmarshal (Struct None) inputValue of
             (sv, err) \<Rightarrow> (Value (Some (Value_StructValue (Some (Some sv)))), err))
      | Inl _ \<Rightarrow> (x, Some (UnrecognizedType inputValue))))))))"
| "ListValue_unmarshal x inputValue =
     (case json_Unmarshal_slice inputValue of
        Inl err \<Rightarrow> (x, Some (BadListValue err))
      | Inr s \<Rightarrow>
          (case ListValue_loop s 0 (replicate (length s) None) of
             (values, err) \<Rightarrow> (ListValue (Some values), err)))"
| "ListValue_loop [] i values = (values, None)"
| "ListValue_loop (sv # rest) i values =
     (case Value_unmarshal (Value None) sv of
        (v, Some err) \<Rightarrow> (values[i := Some v], Some err)
      | (v, None) \<Rightarrow> ListValue_loop rest (Suc i) (values[i := Some v]))"
| "Struct_unmarshal x inputValue =
     (case json_Unmarshal_map inputValue of
        Inl err \<Rightarrow> (x, Some (BadStructValue err))
      | Inr m \<Rightarrow>
          (case Struct_loop m [] of
             (fields, err) \<Rightarrow> (Struct (Some fields), err)))"
| "Struct_loop [] fields = (fields, None)"
| "Struct_loop ((k, jv) # rest) fields =
     (case Value_unmarshal (Value None) jv of
        (pv, Some err) \<Rightarrow> (fields, Some (BadValueInStruct k err))
      | (pv, None) \<Rightarrow> Struct_loop rest (AList.update k (Some pv) fields))"
  by pat_completeness auto

termination
  apply (relation "measure (\<lambda>x. case x of
      Inl (Inl (x, s)) \<Rightarrow> 2 * length s + 1
    | Inl (Inr (x, s)) \<Rightarrow> 2 * length s
    | Inr (Inl (es, i, vs)) \<Rightarrow> raw_size es
    | Inr (Inr (Inl (x, s))) \<Rightarrow> 2 * length s
    | Inr (Inr (Inr (kvs, fs))) \<Rightarrow> raw_size (map snd kvs))")
          apply (simp_all add: json_Unmarshal_slice_size json_Unmarshal_map_size)
  done

(*PROPERTIES*)
section \<open>Properties\<close>

subsection \<open>Encoding of empty and unset containers, and of unset values\<close>

lemma json_Marshal_slice_not_null: "json_Marshal_slice es \<noteq> Inr ''null''"
  by (simp add: json_Marshal_slice_def split: sum.splits)

lemma json_Marshal_map_not_null: "json_Marshal_map kvs \<noteq> Inr ''null''"
  by (simp add: json_Marshal_map_def split: sum.splits)

text \<open>
  C4. A \<^verbatim>\<open>ListValue\<close> whose \<^verbatim>\<open>Values\<close> is nil or empty encodes as exactly \<^verbatim>\<open>[]\<close>, a \<^verbatim>\<open>Struct\<close>
  whose \<^verbatim>\<open>Fields\<close> is nil or empty encodes as exactly \<^verbatim>\<open>{}\<close>, and no \<^verbatim>\<open>ListValue\<close> and no
  \<^verbatim>\<open>Struct\<close> at all encodes as \<^verbatim>\<open>null\<close>.
\<close>

theorem empty_containers_encode:
  "ListValue_MarshalJSON fmt (ListValue None) = Inr ''[]''
   \<and> ListValue_MarshalJSON fmt (ListValue (Some [])) = Inr ''[]''
   \<and> Struct_MarshalJSON fmt (Struct None) = Inr ''{}''
   \<and> Struct_MarshalJSON fmt (Struct (Some [])) = Inr ''{}''
   \<and> ListValue_MarshalJSON fmt lv \<noteq> Inr ''null''
   \<and> Struct_MarshalJSON fmt sv \<noteq> Inr ''null''"
proof -
  have "ListValue_MarshalJSON fmt lv \<noteq> Inr ''null''"
    by (cases lv; cases "Values lv") (simp_all add: json_Marshal_slice_not_null)
  moreover have "Struct_MarshalJSON fmt sv \<noteq> Inr ''null''"
    by (cases sv; cases "Fields sv") (simp_all add: json_Marshal_map_not_null)
  ultimately show ?thesis
    by (simp add: json_Marshal_slice_def json_Marshal_map_def)
qed

text \<open>
  C9. \<^verbatim>\<open>Value.MarshalJSON\<close> returns the literal \<^verbatim>\<open>null\<close> and no error for a \<^verbatim>\<open>Value\<close> whose
  \<^verbatim>\<open>Kind\<close> is the nil interface, and for one whose \<^verbatim>\<open>Kind\<close> holds a nil pointer of any of the
  six variant types.
\<close>

theorem nil_kind_encodes_null:
  "Value_MarshalJSON fmt (Value None) = Inr ''null''
   \<and> Value_MarshalJSON fmt (Value (Some (Value_NullValue None))) = Inr ''null''
   \<and> Value_MarshalJSON fmt (Value (Some (Value_NumberValue None))) = Inr ''null''
   \<and> Value_MarshalJSON fmt (Value (Some (Value_StringValue None))) = Inr ''null''
   \<and> Value_MarshalJSON fmt (Value (Some (Value_BoolValue None))) = Inr ''null''
   \<and> Value_MarshalJSON fmt (Value (Some (Value_StructValue None))) = Inr ''null''
   \<and> Value_MarshalJSON fmt (Value (Some (Value_ListValue None))) = Inr ''null''"
  by simp

subsection \<open>Numbers on the way out to native values\<close>

lemma exponent_field_PosInf: "exponent_field 0x7FF0000000000000 = 0x7FF"
  by (simp add: exponent_field_def drop_bit_eq_div)

lemma exponent_field_NegInf: "exponent_field 0xFFF0000000000000 = 0x7FF"
  by (simp add: exponent_field_def drop_bit_eq_div)

lemma fraction_field_PosInf: "fraction_field 0x7FF0000000000000 = 0"
  by (simp add: fraction_field_def)

lemma fraction_field_NegInf: "fraction_field 0xFFF0000000000000 = 0"
  by (simp add: fraction_field_def)

text \<open>
  C5. \<^verbatim>\<open>AsInterface\<close> turns a number that is NaN into the string \<^verbatim>\<open>NaN\<close>, positive infinity
  into \<^verbatim>\<open>Infinity\<close>, negative infinity into \<^verbatim>\<open>-Infinity\<close>, and returns every finite number
  (one whose exponent field is not all ones) as the same \<^verbatim>\<open>float64\<close>.
\<close>

theorem AsInterface_Number:
  "(IsNaN f \<longrightarrow> AsInterface (Some (Value (Some (Value_NumberValue (Some f))))) = GoString ''NaN'')
   \<and> (f = PosInf \<longrightarrow>
        AsInterface (Some (Value (Some (Value_NumberValue (Some f))))) = GoString ''Infinity'')
   \<and> (f = NegInf \<longrightarrow>
        AsInterface (Some (Value (Some (Value_NumberValue (Some f))))) = GoString ''-Infinity'')
   \<and> (is_finite f \<longrightarrow>
        AsInterface (Some (Value (Some (Value_NumberValue (Some f))))) = GoFloat64 f)"
  by (auto simp: IsNaN_def IsInf_def PosInf_def NegInf_def is_finite_def
      exponent_field_PosInf exponent_field_NegInf fraction_field_PosInf fraction_field_NegInf)

theorem AsInterface_Number_witness:
  "IsNaN 0x7FF8000000000001
   \<and> AsInterface (Some (Value (Some (Value_NumberValue (Some 0x7FF8000000000001))))) = GoString ''NaN''
   \<and> AsInterface (Some (Value (Some (Value_NumberValue (Some PosInf))))) = GoString ''Infinity''
   \<and> AsInterface (Some (Value (Some (Value_NumberValue (Some NegInf))))) = GoString ''-Infinity''
   \<and> is_finite 0x3FF8000000000000
   \<and> AsInterface (Some (Value (Some (Value_NumberValue (Some 0x3FF8000000000000)))))
       = GoFloat64 0x3FF8000000000000"
proof -
  have nan: "IsNaN 0x7FF8000000000001"
    by (simp add: IsNaN_def exponent_field_def fraction_field_def drop_bit_eq_div)
  have fin: "is_finite 0x3FF8000000000000"
    by (simp add: is_finite_def exponent_field_def drop_bit_eq_div)
  show ?thesis
    using nan fin AsInterface_Number [of "0x7FF8000000000001"] AsInterface_Number [of PosInf]
      AsInterface_Number [of NegInf] AsInterface_Number [of "0x3FF8000000000000"]
    by blast
qed

end
